theory Spec2Isabelle
  imports Complex_Main "HOL-Library.AList"
begin

section \<open>The grade calculator of \<^verbatim>\<open>src/main.py\<close>\<close>

text \<open>
  The program computes a weighted percentage and a letter grade for every student, from
  scores typed at the console or read from a CSV file.

  Conventions of the embedding:
  \<^item> a Python \<^verbatim>\<open>float\<close> is an IEEE 754 double with its rounding, its infinities and
    NaN; the integers \<^verbatim>\<open>40\<close>, \<^verbatim>\<open>30\<close>, \<^verbatim>\<open>30\<close> of the default weights and the
    thresholds of the grade scale are the floats of the same value, which is what the
    arithmetic and the comparisons of the program make of them;
  \<^item> the weights dictionary is iterated, so it is an association list in insertion order
    (keys distinct); a scores dictionary is only written and looked up, so it is a map;
  \<^item> the console is a record of the lines still to be read and the lines written so far;
    \<^verbatim>\<open>input\<close> at the end of the input raises \<^verbatim>\<open>EOFError\<close>, as Python does, and
    reading and writing do not fail otherwise (input that cannot be decoded, an output
    that is closed and signals are outside the model);
  \<^item> an exception is a value: a function that can raise returns \<open>exn + 'a\<close>, together
    with the console as the exception left it;
  \<^item> the built-in conversions \<^verbatim>\<open>float\<close>, \<^verbatim>\<open>int\<close>, \<^verbatim>\<open>str.strip\<close> and
    \<^verbatim>\<open>str.lower\<close>, the built-in \<^verbatim>\<open>sum\<close> (whose summation algorithm depends on the
    version of Python) and the parser of the command line are parameters of the model
    (a record \<open>builtins\<close>), so that every theorem holds for whatever these functions do.
\<close>

subsection \<open>Floating-point numbers\<close>

text \<open>
  A Python \<^verbatim>\<open>float\<close> is an IEEE 754 double: a finite number, an infinity or NaN. The two
  zeros are one value here, \<open>Finite 0\<close>: the program never divides by a zero without
  Python raising, its comparisons take the two zeros for equal, and the sign of a zero
  shows only in how a number is written, which the model leaves open.
\<close>

datatype pyfloat = Finite real | PosInf | NegInf | NaN

text \<open>
  Rounding to the nearest double, ties to the even significand: a double has 53
  significant bits, the least exponent is \<open>-1022\<close> (below it the spacing stays
  \<open>2 powi (- 1074)\<close>), and a result of magnitude \<open>2 ^ 1024\<close> or more overflows to an
  infinity.
\<close>

definition round_half_even :: "real \<Rightarrow> int" where
  "round_half_even x =
     (let f = \<lfloor>x\<rfloor>
      in if x - of_int f < 1 / 2 then f
         else if x - of_int f > 1 / 2 then f + 1
         else if even f then f else f + 1)"

definition ieee_round :: "real \<Rightarrow> pyfloat" where
  "ieee_round x =
     (if x = 0 then Finite 0
      else (let e = max \<lfloor>log 2 \<bar>x\<bar>\<rfloor> (- 1022);
                y = of_int (round_half_even (x * 2 powi (52 - e))) * 2 powi (e - 52)
            in if \<bar>y\<bar> \<ge> 2 ^ 1024 then (if x < 0 then NegInf else PosInf) else Finite y))"

text \<open>\<^verbatim>\<open>-a\<close> and \<^verbatim>\<open>abs(a)\<close> are exact.\<close>

fun fneg :: "pyfloat \<Rightarrow> pyfloat" where
  "fneg (Finite x) = Finite (- x)"
| "fneg PosInf = NegInf"
| "fneg NegInf = PosInf"
| "fneg NaN = NaN"

fun fabs :: "pyfloat \<Rightarrow> pyfloat" where
  "fabs (Finite x) = Finite \<bar>x\<bar>"
| "fabs PosInf = PosInf"
| "fabs NegInf = PosInf"
| "fabs NaN = NaN"

text \<open>The sign of a value, \<open>0\<close> for a zero and for NaN.\<close>

fun fsign :: "pyfloat \<Rightarrow> int" where
  "fsign (Finite x) = (if x < 0 then - 1 else if x = 0 then 0 else 1)"
| "fsign PosInf = 1"
| "fsign NegInf = - 1"
| "fsign NaN = 0"

definition signed_inf :: "int \<Rightarrow> pyfloat" where
  "signed_inf s = (if s < 0 then NegInf else PosInf)"

text \<open>
  \<^verbatim>\<open>a + b\<close>: the exact sum of two finite numbers is rounded; an infinity absorbs every
  finite number; two infinities of opposite signs, or a NaN, give NaN.
\<close>

definition fadd :: "pyfloat \<Rightarrow> pyfloat \<Rightarrow> pyfloat" where
  "fadd a b =
     (case (a, b) of
        (Finite x, Finite y) \<Rightarrow> ieee_round (x + y)
      | (Finite x, _) \<Rightarrow> b
      | (_, Finite y) \<Rightarrow> a
      | _ \<Rightarrow> if a = b then a else NaN)"

definition fsub :: "pyfloat \<Rightarrow> pyfloat \<Rightarrow> pyfloat" where
  "fsub a b = fadd a (fneg b)"

text \<open>\<^verbatim>\<open>a * b\<close>: an infinity times a zero, and anything with a NaN, is NaN.\<close>

definition fmul :: "pyfloat \<Rightarrow> pyfloat \<Rightarrow> pyfloat" where
  "fmul a b =
     (case (a, b) of
        (Finite x, Finite y) \<Rightarrow> ieee_round (x * y)
      | _ \<Rightarrow> if fsign a * fsign b = 0 then NaN else signed_inf (fsign a * fsign b))"

text \<open>
  \<^verbatim>\<open>a / b\<close>: Python raises \<^verbatim>\<open>ZeroDivisionError\<close> for a zero divisor, whatever the
  dividend; that is \<open>None\<close>.
\<close>

definition fdiv :: "pyfloat \<Rightarrow> pyfloat \<Rightarrow> pyfloat option" where
  "fdiv a b =
     (case (a, b) of
        (_, Finite y) \<Rightarrow>
           if y = 0 then None
           else Some (case a of
                        Finite x \<Rightarrow> ieee_round (x / y)
                      | NaN \<Rightarrow> NaN
                      | _ \<Rightarrow> signed_inf (fsign a * fsign b))
      | (Finite x, NaN) \<Rightarrow> Some NaN
      | (Finite x, _) \<Rightarrow> Some (Finite 0)
      | _ \<Rightarrow> Some NaN)"

text \<open>\<^verbatim>\<open>a / 100.0\<close>, a division that cannot raise.\<close>

definition over_100 :: "pyfloat \<Rightarrow> pyfloat" where
  "over_100 a = (case a of Finite x \<Rightarrow> ieee_round (x / 100) | _ \<Rightarrow> a)"

text \<open>\<^verbatim>\<open>a < b\<close>, \<^verbatim>\<open>a == b\<close> and \<^verbatim>\<open>a <= b\<close>: every comparison with a NaN is false.\<close>

definition flt :: "pyfloat \<Rightarrow> pyfloat \<Rightarrow> bool" where
  "flt a b =
     (case (a, b) of
        (Finite x, Finite y) \<Rightarrow> x < y
      | (NaN, _) \<Rightarrow> False
      | (_, NaN) \<Rightarrow> False
      | (NegInf, _) \<Rightarrow> b \<noteq> NegInf
      | (_, PosInf) \<Rightarrow> a \<noteq> PosInf
      | _ \<Rightarrow> False)"

definition feq :: "pyfloat \<Rightarrow> pyfloat \<Rightarrow> bool" where
  "feq a b \<longleftrightarrow> a \<noteq> NaN \<and> a = b"

definition fle :: "pyfloat \<Rightarrow> pyfloat \<Rightarrow> bool" where
  "fle a b \<longleftrightarrow> flt a b \<or> feq a b"

subsection \<open>Dictionaries, exceptions and the console\<close>

type_synonym weights = "(string \<times> pyfloat) list"

type_synonym scores = "string \<rightharpoonup> pyfloat"

text \<open>\<^verbatim>\<open>d.get(k, default)\<close>\<close>

definition dict_get :: "('k \<rightharpoonup> 'v) \<Rightarrow> 'k \<Rightarrow> 'v \<Rightarrow> 'v" where
  "dict_get d k dflt = (case d k of None \<Rightarrow> dflt | Some v \<Rightarrow> v)"

text \<open>
  The exceptions the program can meet. \<open>ValueError\<close> carries the message the program gives
  it; the other constructors are raised by built-ins: \<open>FloatValueError s\<close> is the
  \<^verbatim>\<open>ValueError\<close> of \<^verbatim>\<open>float(s)\<close>, \<open>FloatTypeError\<close> the \<^verbatim>\<open>TypeError\<close> of
  \<^verbatim>\<open>float(None)\<close>, \<open>NotIterableTypeError\<close> the \<^verbatim>\<open>TypeError\<close> of
  \<^verbatim>\<open>field not in None\<close>, \<open>KeyError k\<close> the lookup of a key \<open>k\<close> that a dictionary
  does not have, \<open>ZeroDivisionError\<close> a division by zero, \<open>EOFError\<close> the end of the
  input at \<^verbatim>\<open>input\<close>, \<open>OSError path\<close> a file that cannot be opened.
\<close>

datatype exn =
    ValueError string
  | FloatValueError string
  | FloatTypeError
  | NotIterableTypeError
  | KeyError string
  | ZeroDivisionError
  | EOFError
  | OSError string

text \<open>
  One piece of a formatted line: literal text, \<^verbatim>\<open>{v}\<close> for a number (how Python
  writes it, and that it writes the integer \<^verbatim>\<open>40\<close> and the float \<^verbatim>\<open>40.0\<close>
  differently, is not in the model), \<^verbatim>\<open>{i}\<close> for an integer, \<^verbatim>\<open>{pct:.2f}\<close>, and the
  text of an exception.
\<close>

datatype frag = Str string | Num pyfloat | Whole int | Fix2 pyfloat | ExnStr exn

datatype line = Print "frag list" | Prompt "frag list"

text \<open>
  What \<^verbatim>\<open>parser.parse_args()\<close> makes of a command line: it ends the process with a
  status (\<open>2\<close> after the message for a command line it rejects, \<open>0\<close> after the help
  text), having written some lines, or it gives the value of \<^verbatim>\<open>args.csv\<close>.
\<close>

datatype parsed = SystemExit nat "line list" | Namespace "string option"

record builtins =
  py_float :: "string \<Rightarrow> pyfloat option"
  py_int :: "string \<Rightarrow> int option"
  py_strip :: "string \<Rightarrow> string"
  py_lower :: "string \<Rightarrow> string"
  py_sum :: "pyfloat list \<Rightarrow> pyfloat"
  py_parse_args :: "string list \<Rightarrow> parsed"

text \<open>
  \<open>files\<close> gives, for a path that can be opened, the rows that \<^verbatim>\<open>csv.reader\<close> reads
  from it (the header row first). A file that opens is read to its end: an error of the
  reader itself in the middle of a file (bad encoding, bad quoting) is outside the model.
\<close>

record world =
  stdin :: "string list"
  stdout :: "line list"
  files :: "string \<rightharpoonup> string list list"

definition print_line :: "frag list \<Rightarrow> world \<Rightarrow> world" where
  "print_line fs w = w\<lparr>stdout := stdout w @ [Print fs]\<rparr>"

text \<open>\<^verbatim>\<open>input(prompt)\<close>: the prompt is written, then a line is read.\<close>

definition input_line :: "frag list \<Rightarrow> world \<Rightarrow> (exn + string) \<times> world" where
  "input_line p w =
     (let w1 = w\<lparr>stdout := stdout w @ [Prompt p]\<rparr>
      in case stdin w of
           [] \<Rightarrow> (Inl EOFError, w1)
         | l # ls \<Rightarrow> (Inr l, w1\<lparr>stdin := ls\<rparr>))"

subsection \<open>The tables\<close>

definition DEFAULT_WEIGHTS :: weights where
  "DEFAULT_WEIGHTS =
     [(''assignment'', Finite 40), (''midterm'', Finite 30), (''final'', Finite 30)]"

definition GRADE_SCALE :: "(real \<times> string) list" where
  "GRADE_SCALE =
     [(90, ''A''), (85, ''A-''), (80, ''B+''), (75, ''B''), (70, ''B-''),
      (65, ''C+''), (60, ''C''), (50, ''D''), (0, ''F'')]"

subsection \<open>The grade engine\<close>

text \<open>
  The \<^verbatim>\<open>for\<close> loop of \<^verbatim>\<open>percentage_to_letter\<close>, with the \<^verbatim>\<open>return "F"\<close> after it;
  \<^verbatim>\<open>pct >= min_pct\<close> is \<open>fle (Finite min_pct) pct\<close>.
\<close>

fun scale_loop :: "pyfloat \<Rightarrow> (real \<times> string) list \<Rightarrow> string" where
  "scale_loop pct [] = ''F''"
| "scale_loop pct ((min_pct, letter) # rest) =
     (if fle (Finite min_pct) pct then letter else scale_loop pct rest)"

definition percentage_to_letter :: "pyfloat \<Rightarrow> string" where
  "percentage_to_letter pct = scale_loop pct GRADE_SCALE"

text \<open>The \<^verbatim>\<open>for comp, weight in weights.items()\<close> loop; \<open>total'\<close> is the variable \<^verbatim>\<open>total\<close>
  (\<open>total\<close> and \<open>comp\<close> are constants of HOL, hence the primes).\<close>

fun weighted_loop :: "scores \<Rightarrow> weights \<Rightarrow> pyfloat \<Rightarrow> pyfloat" where
  "weighted_loop scores [] total' = total'"
| "weighted_loop scores ((comp', weight) # rest) total' =
     (let score = dict_get scores comp' (Finite 0)
      in weighted_loop scores rest (fadd total' (fmul score (over_100 weight))))"

definition calculate_weighted_percentage :: "scores \<Rightarrow> weights \<Rightarrow> pyfloat" where
  "calculate_weighted_percentage scores weights = weighted_loop scores weights (Finite 0)"

subsection \<open>Weight configuration\<close>

text \<open>
  The \<^verbatim>\<open>while True\<close> loop of \<^verbatim>\<open>prompt_weights\<close> for one component: every
  exception of the \<^verbatim>\<open>try\<close> block is a \<^verbatim>\<open>ValueError\<close> and leads to a new prompt.
\<close>

function weight_loop :: "builtins \<Rightarrow> string \<Rightarrow> pyfloat \<Rightarrow> world \<Rightarrow> (exn + pyfloat) \<times> world" where
  "weight_loop py comp' dflt w =
     (case input_line [Str ''Enter weight for '', Str [CHR 0x27], Str comp', Str [CHR 0x27],
                       Str '' (current '', Num dflt, Str ''): ''] w of
        (Inl e, w1) \<Rightarrow> (Inl e, w1)
      | (Inr l, w1) \<Rightarrow>
          (let val = py_strip py l;
               again = print_line [Str ''Please enter a non-negative number (or leave blank).''] w1
           in case (if val = '''' then Some dflt else py_float py val) of
                None \<Rightarrow> weight_loop py comp' dflt again
              | Some wt \<Rightarrow>
                  if flt wt (Finite 0) then weight_loop py comp' dflt again else (Inr wt, w1)))"
  by pat_completeness auto
termination
  by (relation "measure (\<lambda>(py, comp', dflt, w). length (stdin w))")
     (auto simp: input_line_def print_line_def Let_def split: list.splits)

declare weight_loop.simps [simp del]

text \<open>
  The \<^verbatim>\<open>for comp in defaults\<close> loop: it goes through the pairs of \<open>defaults\<close>, the
  second of a pair being \<^verbatim>\<open>defaults[comp]\<close>; \<^verbatim>\<open>weights[comp] = w\<close> is
  \<open>AList.update\<close>, which replaces the value of a key in place and puts a new key last.
\<close>

fun weights_loop :: "builtins \<Rightarrow> weights \<Rightarrow> weights \<Rightarrow> world \<Rightarrow> (exn + weights) \<times> world" where
  "weights_loop py [] weights w = (Inr weights, w)"
| "weights_loop py ((comp', dflt) # rest) weights w =
     (case weight_loop py comp' dflt w of
        (Inl e, w1) \<Rightarrow> (Inl e, w1)
      | (Inr wt, w1) \<Rightarrow> weights_loop py rest (AList.update comp' wt weights) w1)"

text \<open>
  \<^verbatim>\<open>{k: (v / total) * 100.0 for k, v in weights.items()}\<close>, item after item; a division
  by zero would end it.
\<close>

fun rescale :: "pyfloat \<Rightarrow> weights \<Rightarrow> exn + weights" where
  "rescale total' [] = Inr []"
| "rescale total' ((k, v) # rest) =
     (case fdiv v total' of
        None \<Rightarrow> Inl ZeroDivisionError
      | Some q \<Rightarrow>
          (case rescale total' rest of
             Inl e \<Rightarrow> Inl e
           | Inr ws \<Rightarrow> Inr ((k, fmul q (Finite 100)) # ws)))"

text \<open>
  The end of \<^verbatim>\<open>prompt_weights\<close>, from \<^verbatim>\<open>total = sum(weights.values())\<close> on. The literal
  \<^verbatim>\<open>1e-6\<close> is the double nearest to that number.
\<close>

definition normalize_weights :: "builtins \<Rightarrow> weights \<Rightarrow> world \<Rightarrow> (exn + weights) \<times> world" where
  "normalize_weights py weights w =
     (let total' = py_sum py (map snd weights)
      in if flt (ieee_round (1 / 10 ^ 6)) (fabs (fsub total' (Finite 100))) then
           (let w1 = print_line [Str ''Weights sum to '', Num total',
                                 Str '', but must sum to 100. Normalizing proportionally.''] w
            in if feq total' (Finite 0)
               then (Inl (ValueError ''All weights are zero; can't normalize.''), w1)
               else (case rescale total' weights of
                       Inl e \<Rightarrow> (Inl e, w1)
                     | Inr ws \<Rightarrow> (Inr ws, w1)))
         else (Inr weights, w))"

definition prompt_weights :: "builtins \<Rightarrow> weights \<Rightarrow> world \<Rightarrow> (exn + weights) \<times> world" where
  "prompt_weights py defaults w =
     (let w1 = print_line [Str ''Current/default weights (percent):''] w;
          w2 = fold (\<lambda>(k, v). print_line [Str ''  '', Str k, Str '': '', Num v, Str ''%'']) defaults w1
      in case input_line [Str ''Would you like to change weights? (y/N): ''] w2 of
           (Inl e, w3) \<Rightarrow> (Inl e, w3)
         | (Inr l, w3) \<Rightarrow>
             if py_lower py (py_strip py l) \<noteq> ''y'' then (Inr defaults, w3)
             else (case weights_loop py defaults [] w3 of
                     (Inl e, w4) \<Rightarrow> (Inl e, w4)
                   | (Inr weights, w4) \<Rightarrow> normalize_weights py weights w4))"

subsection \<open>Interactive mode\<close>

text \<open>
  The \<^verbatim>\<open>while True\<close> loop that reads one score. The program has it twice, word for
  word (in the indefinite and in the fixed-count branch); both are this function.
\<close>

function score_loop :: "builtins \<Rightarrow> string \<Rightarrow> world \<Rightarrow> (exn + pyfloat) \<times> world" where
  "score_loop py comp' w =
     (case input_line [Str ''  '', Str comp', Str '' score (0-100): ''] w of
        (Inl e, w1) \<Rightarrow> (Inl e, w1)
      | (Inr l, w1) \<Rightarrow>
          (let s = py_strip py l;
               again = print_line [Str ''  Enter a number between 0 and 100.''] w1
           in case py_float py s of
                None \<Rightarrow> score_loop py comp' again
              | Some score \<Rightarrow>
                  if \<not> (fle (Finite 0) score \<and> fle score (Finite 100))
                  then score_loop py comp' again
                  else (Inr score, w1)))"
  by pat_completeness auto
termination
  by (relation "measure (\<lambda>(py, comp', w). length (stdin w))")
     (auto simp: input_line_def print_line_def Let_def split: list.splits)

declare score_loop.simps [simp del]

text \<open>The \<^verbatim>\<open>for comp in components\<close> loop around it, filling \<^verbatim>\<open>scores\<close>.\<close>

fun scores_loop :: "builtins \<Rightarrow> string list \<Rightarrow> scores \<Rightarrow> world \<Rightarrow> (exn + scores) \<times> world" where
  "scores_loop py [] scores w = (Inr scores, w)"
| "scores_loop py (comp' # rest) scores w =
     (case score_loop py comp' w of
        (Inl e, w1) \<Rightarrow> (Inl e, w1)
      | (Inr score, w1) \<Rightarrow> scores_loop py rest (scores(comp' \<mapsto> score)) w1)"

text \<open>What both branches do for one student once the name is read.\<close>

definition enter_student :: "builtins \<Rightarrow> weights \<Rightarrow> string \<Rightarrow> world \<Rightarrow> (exn + unit) \<times> world" where
  "enter_student py weights name w =
     (case scores_loop py (map fst weights) Map.empty w of
        (Inl e, w1) \<Rightarrow> (Inl e, w1)
      | (Inr scores, w1) \<Rightarrow>
          (let pct = calculate_weighted_percentage scores weights;
               letter = percentage_to_letter pct
           in (Inr (), print_line [Str ''  => '', Str name, Str '': '', Fix2 pct,
                                   Str ''% -> '', Str letter] w1)))"

text \<open>The indefinite branch: \<^verbatim>\<open>while True\<close>, left by the name \<^verbatim>\<open>q\<close>.\<close>

function indefinite_loop :: "builtins \<Rightarrow> weights \<Rightarrow> world \<Rightarrow> (exn + unit) \<times> world" where
  "indefinite_loop py weights w =
     (case input_line [Str ''Student name (or 'q' to quit): ''] w of
        (Inl e, w1) \<Rightarrow> (Inl e, w1)
      | (Inr l, w1) \<Rightarrow>
          (let name = py_strip py l
           in if py_lower py name = ''q'' then (Inr (), w1)
              else (case enter_student py weights name w1 of
                      (Inl e, w2) \<Rightarrow> (Inl e, w2)
                    | (Inr u, w2) \<Rightarrow> indefinite_loop py weights w2)))"
  by pat_completeness auto
termination
proof -
  have score: "length (stdin b) \<le> length (stdin a)"
    if "score_loop py c a = (r, b)" for py c a r b
    using that
  proof (induction py c a rule: score_loop.induct)
    case (1 py c a)
    show ?case
    proof (cases "stdin a")
      case Nil
      with "1.prems" show ?thesis
        by (subst (asm) score_loop.simps) (auto simp: input_line_def)
    next
      case (Cons k ks)
      define a1 where "a1 = a\<lparr>stdout := stdout a @ [Prompt [Str ''  '', Str c, Str '' score (0-100): '']], stdin := ks\<rparr>"
      define again where "again = print_line [Str ''  Enter a number between 0 and 100.''] a1"
      have inp1: "input_line [Str ''  '', Str c, Str '' score (0-100): ''] a = (Inr k, a1)"
        using Cons by (simp add: input_line_def a1_def)
      have len: "length (stdin again) < length (stdin a)" "length (stdin a1) < length (stdin a)"
        using Cons by (simp_all add: again_def a1_def print_line_def)
      show ?thesis
      proof (cases "py_float py (py_strip py k)")
        case None
        have "score_loop py c a = score_loop py c again"
          by (subst score_loop.simps) (simp add: inp1 None again_def)
        with "1.prems" have "score_loop py c again = (r, b)" by simp
        then have "length (stdin b) \<le> length (stdin again)"
          unfolding again_def by (rule "1.IH"(1) [OF inp1 [symmetric] refl refl refl None])
        then show ?thesis using len by simp
      next
        case (Some v)
        show ?thesis
        proof (cases "fle (Finite 0) v \<and> fle v (Finite 100)")
          case True
          have "score_loop py c a = (Inr v, a1)"
            by (subst score_loop.simps) (use True in \<open>simp add: inp1 Some\<close>)
          with "1.prems" show ?thesis using len by auto
        next
          case False
          have "score_loop py c a = score_loop py c again"
            by (subst score_loop.simps) (use False in \<open>simp add: inp1 Some again_def\<close>)
          with "1.prems" have "score_loop py c again = (r, b)" by simp
          then have "length (stdin b) \<le> length (stdin again)"
            unfolding again_def by (rule "1.IH"(2) [OF inp1 [symmetric] refl refl refl Some False])
          then show ?thesis using len by simp
        qed
      qed
    qed
  qed
  have scores: "length (stdin b) \<le> length (stdin a)"
    if "scores_loop py cs sc a = (r, b)" for py cs sc a r b
    using that
  proof (induction cs arbitrary: sc a)
    case Nil
    then show ?case by simp
  next
    case (Cons c cs)
    obtain r1 a1 where s1: "score_loop py c a = (r1, a1)"
      by (cases "score_loop py c a")
    show ?case
    proof (cases r1)
      case (Inl e)
      with Cons.prems s1 score [OF s1] show ?thesis by simp
    next
      case (Inr v)
      with Cons.prems s1 have "scores_loop py cs (sc(c \<mapsto> v)) a1 = (r, b)" by simp
      from Cons.IH [OF this] score [OF s1] show ?thesis by simp
    qed
  qed
  have student: "length (stdin b) \<le> length (stdin a)"
    if "enter_student py ws name a = (r, b)" for py ws name a r b
    using that scores [of py "map fst ws" Map.empty a]
    by (auto simp: enter_student_def Let_def print_line_def split: prod.splits sum.splits)
  show ?thesis
  proof (relation "measure (\<lambda>(py, weights, w). length (stdin w))", goal_cases)
    case 1
    show ?case by simp
  next
    case 2
    then show ?case
      by (auto simp: input_line_def Let_def split: list.splits dest!: student [OF sym])
  qed
qed

declare indefinite_loop.simps [simp del]

text \<open>
  The fixed-count branch: \<^verbatim>\<open>for i in range(count)\<close>. The first number is \<open>i\<close>, the
  second the number of rounds still to run; \<open>interactive_mode\<close> starts it at
  \<open>0\<close> and \<open>nat count\<close>, which is \<open>0\<close> for a negative count as \<^verbatim>\<open>range\<close> is
  empty then.
\<close>

fun count_loop :: "builtins \<Rightarrow> weights \<Rightarrow> nat \<Rightarrow> nat \<Rightarrow> world \<Rightarrow> (exn + unit) \<times> world" where
  "count_loop py weights i 0 w = (Inr (), w)"
| "count_loop py weights i (Suc k) w =
     (case input_line [Str ''Student #'', Whole (int i + 1), Str '' name: ''] w of
        (Inl e, w1) \<Rightarrow> (Inl e, w1)
      | (Inr l, w1) \<Rightarrow>
          (case enter_student py weights (py_strip py l) w1 of
             (Inl e, w2) \<Rightarrow> (Inl e, w2)
           | (Inr u, w2) \<Rightarrow> count_loop py weights (Suc i) k w2))"

definition interactive_mode :: "builtins \<Rightarrow> weights \<Rightarrow> world \<Rightarrow> (exn + unit) \<times> world" where
  "interactive_mode py weights w =
     (case input_line [Str ''How many students to enter? (leave blank to enter until 'q'): ''] w of
        (Inl e, w1) \<Rightarrow> (Inl e, w1)
      | (Inr l, w1) \<Rightarrow>
          (let n = py_strip py l
           in if n = '''' then
                indefinite_loop py weights
                  (print_line [Str ''Enter student data. Type 'q' as name to quit.''] w1)
              else (case py_int py n of
                      None \<Rightarrow> (Inr (), print_line [Str ''Invalid number, aborting.''] w1)
                    | Some count \<Rightarrow> count_loop py weights 0 (nat count) w1)))"

subsection \<open>CSV mode\<close>

text \<open>
  \<^verbatim>\<open>parse_csv\<close> is a generator: what it gives, in order, is a list that ends either
  normally or with the exception that stopped it.
\<close>

datatype 'a gen = Stop | Yield 'a "'a gen" | Raise exn

text \<open>
  The dictionary \<^verbatim>\<open>csv.DictReader\<close> makes of a row: the cells paired with the field
  names, in order (a later duplicate overwrites), then \<^verbatim>\<open>None\<close> for every field the row
  is too short for. The cells beyond the last field go under the key \<^verbatim>\<open>None\<close>, which no
  lookup of the program uses, and are left out.
\<close>

definition row_dict :: "string list \<Rightarrow> string list \<Rightarrow> (string \<rightharpoonup> string option)" where
  "row_dict fieldnames cells =
     fold (\<lambda>(k, v) d. d(k \<mapsto> v))
       (zip fieldnames (map Some cells) @ map (\<lambda>k. (k, None)) (drop (length cells) fieldnames))
       Map.empty"

text \<open>The check of the header, \<^verbatim>\<open>for field in required_fields\<close>.\<close>

fun check_fields :: "string list \<Rightarrow> string list \<Rightarrow> exn option" where
  "check_fields [] fieldnames = None"
| "check_fields (field # rest) fieldnames =
     (if field \<notin> set fieldnames
      then Some (ValueError (''CSV is missing required column: '' @ field))
      else check_fields rest fieldnames)"

text \<open>\<^verbatim>\<open>{comp: float(row[comp]) for comp in components}\<close>, left to right.\<close>

fun row_scores :: "builtins \<Rightarrow> (string \<rightharpoonup> string option) \<Rightarrow> string list \<Rightarrow> scores \<Rightarrow> exn + scores" where
  "row_scores py row [] scores = Inr scores"
| "row_scores py row (comp' # rest) scores =
     (case row comp' of
        None \<Rightarrow> Inl (KeyError comp')
      | Some None \<Rightarrow> Inl FloatTypeError
      | Some (Some s) \<Rightarrow>
          (case py_float py s of
             None \<Rightarrow> Inl (FloatValueError s)
           | Some x \<Rightarrow> row_scores py row rest (scores(comp' \<mapsto> x))))"

text \<open>
  \<^verbatim>\<open>for row in reader\<close>: the reader skips the rows without any cell. A name is
  \<^verbatim>\<open>None\<close> when the row is too short to have one.
\<close>

fun rows_loop :: "builtins \<Rightarrow> string list \<Rightarrow> string list \<Rightarrow> string list list \<Rightarrow> (string option \<times> scores) gen" where
  "rows_loop py fieldnames components [] = Stop"
| "rows_loop py fieldnames components (cells # rest) =
     (if cells = [] then rows_loop py fieldnames components rest
      else (let row = row_dict fieldnames cells
            in case row ''name'' of
                 None \<Rightarrow> Raise (KeyError ''name'')
               | Some name \<Rightarrow>
                   (case row_scores py row components Map.empty of
                      Inl e \<Rightarrow> Raise e
                    | Inr scores \<Rightarrow> Yield (name, scores) (rows_loop py fieldnames components rest))))"

text \<open>
  A file without any row has no header: \<^verbatim>\<open>reader.fieldnames\<close> is \<^verbatim>\<open>None\<close>, and the
  first membership test raises \<^verbatim>\<open>TypeError\<close>.
\<close>

definition parse_csv :: "builtins \<Rightarrow> string \<Rightarrow> string list \<Rightarrow> world \<Rightarrow> (string option \<times> scores) gen" where
  "parse_csv py input_path components w =
     (case files w input_path of
        None \<Rightarrow> Raise (OSError input_path)
      | Some [] \<Rightarrow> Raise NotIterableTypeError
      | Some (fieldnames # rows) \<Rightarrow>
          (case check_fields (''name'' # components) fieldnames of
             Some e \<Rightarrow> Raise e
           | None \<Rightarrow> rows_loop py fieldnames components rows))"

text \<open>\<^verbatim>\<open>f"{name}"\<close>\<close>

definition str_name :: "string option \<Rightarrow> string" where
  "str_name name = (case name of None \<Rightarrow> ''None'' | Some s \<Rightarrow> s)"

text \<open>
  The \<^verbatim>\<open>for\<close> loop of \<^verbatim>\<open>csv_mode\<close> inside its \<^verbatim>\<open>try\<close>: a line for every pair the
  generator gives, and the \<^verbatim>\<open>except Exception\<close> branch when it raises.
\<close>

fun csv_loop :: "(string option \<times> scores) gen \<Rightarrow> weights \<Rightarrow> world \<Rightarrow> world" where
  "csv_loop Stop weights w = w"
| "csv_loop (Raise e) weights w = print_line [Str ''Error processing CSV: '', ExnStr e] w"
| "csv_loop (Yield (name, scores) g) weights w =
     (let pct = calculate_weighted_percentage scores weights;
          letter = percentage_to_letter pct
      in csv_loop g weights
           (print_line [Str (str_name name), Str '': '', Fix2 pct, Str ''% -> '', Str letter] w))"

definition csv_mode :: "builtins \<Rightarrow> string \<Rightarrow> weights \<Rightarrow> world \<Rightarrow> world" where
  "csv_mode py path weights w = csv_loop (parse_csv py path (map fst weights) w) weights w"

subsection \<open>The program\<close>

text \<open>
  \<open>main\<close> takes the command line and gives the exit status of the process: the status
  of the parser when \<^verbatim>\<open>parser.parse_args()\<close> ends the process, \<open>1\<close> from
  \<^verbatim>\<open>sys.exit(1)\<close>, \<open>1\<close> as well when an exception leaves \<^verbatim>\<open>main\<close> uncaught, \<open>0\<close>
  when \<^verbatim>\<open>main\<close> returns. \<^verbatim>\<open>if args.csv\<close> holds for a path that is not the empty
  string: \<open>given_path\<close> is that path.
\<close>

definition given_path :: "string option \<Rightarrow> string option" where
  "given_path csv = (case csv of None \<Rightarrow> None | Some path \<Rightarrow> if path = '''' then None else Some path)"

definition main :: "builtins \<Rightarrow> string list \<Rightarrow> world \<Rightarrow> nat \<times> world" where
  "main py argv w =
     (case py_parse_args py argv of
        SystemExit status printed \<Rightarrow> (status, w\<lparr>stdout := stdout w @ printed\<rparr>)
      | Namespace csv \<Rightarrow>
          (case prompt_weights py DEFAULT_WEIGHTS w of
             (Inl e, w1) \<Rightarrow> (1, print_line [Str ''Error with weights: '', ExnStr e] w1)
           | (Inr weights, w1) \<Rightarrow>
               (case given_path csv of
                  Some path \<Rightarrow> (0, csv_mode py path weights w1)
                | None \<Rightarrow>
                    (case interactive_mode py weights w1 of
                       (Inl e, w2) \<Rightarrow> (1, w2)
                     | (Inr u, w2) \<Rightarrow> (0, w2)))))"

subsection \<open>Built-ins for the examples\<close>

text \<open>
  A concrete choice of the built-ins, used where a statement is evaluated on an
  example. It is Python's \<^verbatim>\<open>strip\<close> and \<^verbatim>\<open>lower\<close> on ASCII text, and Python's
  \<^verbatim>\<open>int\<close> and \<^verbatim>\<open>float\<close> on the strings the examples use: decimal digits with an
  optional minus sign, which both accept, and words such as \<^verbatim>\<open>abc\<close>, which both reject.
  The sum adds from the left, starting at \<open>0\<close>; the examples sum zeros, numbers whose
  sums are exact, and an infinity, where every summation algorithm gives the same. The
  parser knows the empty command line and \<^verbatim>\<open>--csv PATH\<close>, and rejects the rest with
  status \<open>2\<close>; the examples use these two and \<^verbatim>\<open>--bogus\<close>.
\<close>

definition ascii_space :: "char \<Rightarrow> bool" where
  "ascii_space c \<longleftrightarrow>
     c \<in> set [CHR '' '', CHR 0x09, CHR 0x0A, CHR 0x0B, CHR 0x0C, CHR 0x0D,
              CHR 0x1C, CHR 0x1D, CHR 0x1E, CHR 0x1F]"

definition ascii_strip :: "string \<Rightarrow> string" where
  "ascii_strip s = rev (dropWhile ascii_space (rev (dropWhile ascii_space s)))"

definition ascii_lower :: "string \<Rightarrow> string" where
  "ascii_lower s =
     map (\<lambda>c. case map_of (zip ''ABCDEFGHIJKLMNOPQRSTUVWXYZ'' ''abcdefghijklmnopqrstuvwxyz'') c of
                 None \<Rightarrow> c | Some d \<Rightarrow> d) s"

fun digits_value :: "string \<Rightarrow> nat \<Rightarrow> nat option" where
  "digits_value [] acc = Some acc"
| "digits_value (c # cs) acc =
     (if c \<in> set ''0123456789'' then digits_value cs (10 * acc + (of_char c - 48)) else None)"

definition plain_int :: "string \<Rightarrow> int option" where
  "plain_int s =
     (case s of
        [] \<Rightarrow> None
      | c # cs \<Rightarrow>
          if c = CHR ''-'' then (if cs = [] then None else map_option (\<lambda>n. - int n) (digits_value cs 0))
          else map_option int (digits_value s 0))"

definition plain_float :: "string \<Rightarrow> pyfloat option" where
  "plain_float s = map_option (\<lambda>n. Finite (real_of_int n)) (plain_int s)"

definition left_sum :: "pyfloat list \<Rightarrow> pyfloat" where
  "left_sum xs = foldl fadd (Finite 0) xs"

definition plain_parse_args :: "string list \<Rightarrow> parsed" where
  "plain_parse_args argv =
     (case argv of
        [] \<Rightarrow> Namespace None
      | [opt, path] \<Rightarrow> if opt = ''--csv'' then Namespace (Some path) else SystemExit 2 []
      | _ \<Rightarrow> SystemExit 2 [])"

definition sample_builtins :: builtins where
  "sample_builtins =
     \<lparr>py_float = plain_float, py_int = plain_int, py_strip = ascii_strip, py_lower = ascii_lower,
      py_sum = left_sum, py_parse_args = plain_parse_args\<rparr>"

subsection \<open>Notions used in the statements\<close>


text \<open>The exception a generator ends with, if it ends with one.\<close>

fun gen_raised :: "'a gen \<Rightarrow> exn option" where
  "gen_raised Stop = None"
| "gen_raised (Raise e) = Some e"
| "gen_raised (Yield x g) = gen_raised g"


section \<open>Properties\<close>

subsection \<open>Floating-point arithmetic\<close>


lemma round_half_even_mono_abs: "\<bar>x\<bar> \<le> of_int n \<Longrightarrow> \<bar>round_half_even x\<bar> \<le> n"
  unfolding round_half_even_def Let_def
  by (auto; linarith)

lemma ieee_round_binade:
  assumes "2 powi e \<le> \<bar>x\<bar>" and "\<bar>x\<bar> < 2 powi (e + 1)" and "- 1022 \<le> e" and "e \<le> 1022"
    and "round_half_even (x * 2 powi (52 - e)) = m"
  shows "ieee_round x = Finite (of_int m * 2 powi (e - 52))"
proof -
  have pos: "0 < \<bar>x\<bar>"
    using assms(1) by (smt (verit) zero_less_power_int)
  have "(2::real) powr (of_int e + 1) = 2 powr of_int (e + 1)"
    by simp
  also have "\<dots> = (2::real) powi (e + 1)"
    by (rule powr_real_of_int') simp_all
  finally have "\<lfloor>log 2 \<bar>x\<bar>\<rfloor> = e"
    using assms(1,2) pos by (simp add: floor_log_eq_powr_iff powr_real_of_int')
  then have e: "max \<lfloor>log 2 \<bar>x\<bar>\<rfloor> (- 1022) = e"
    using assms(3) by simp
  have "\<bar>x * 2 powi (52 - e)\<bar> \<le> 2 powi (e + 1) * 2 powi (52 - e)"
    using assms(2) by (simp add: abs_mult mult_right_mono)
  also have "\<dots> = (2::real) powi 53"
    using power_int_add [of "2::real" "e + 1" "52 - e"] by (simp add: add.commute)
  finally have "\<bar>x * 2 powi (52 - e)\<bar> \<le> of_int (2 ^ 53)"
    by simp
  then have "\<bar>m\<bar> \<le> 2 ^ 53"
    using round_half_even_mono_abs assms(5) by blast
  then have "real_of_int \<bar>m\<bar> \<le> real_of_int (2 ^ 53)"
    by (rule of_int_le_iff [THEN iffD2])
  then have "\<bar>real_of_int m\<bar> \<le> 2 powi 53"
    by simp
  moreover have p: "(0::real) < 2 powi (e - 52)"
    by simp
  ultimately have "\<bar>real_of_int m\<bar> * 2 powi (e - 52) \<le> 2 powi 53 * 2 powi (e - 52)"
    by (intro mult_right_mono) simp_all
  moreover have "\<bar>real_of_int m * 2 powi (e - 52)\<bar> = \<bar>real_of_int m\<bar> * 2 powi (e - 52)"
    using p by (simp only: abs_mult abs_of_pos)
  ultimately have "\<bar>real_of_int m * 2 powi (e - 52)\<bar> \<le> 2 powi 53 * 2 powi (e - 52)"
    by simp
  also have "\<dots> = (2::real) powi (e + 1)"
    using power_int_add [of "2::real" 53 "e - 52"] by (simp add: add.commute)
  also have "\<dots> \<le> 2 powi 1023"
    using assms(4) by (intro power_int_increasing) auto
  also have "\<dots> < 2 ^ 1024"
    by simp
  finally have "\<not> \<bar>real_of_int m * 2 powi (e - 52)\<bar> \<ge> 2 ^ 1024"
    by simp
  then show ?thesis
    using pos e assms(5) by (simp add: ieee_round_def Let_def)
qed

lemma ieee_round_0 [simp]: "ieee_round 0 = Finite 0"
  by (simp add: ieee_round_def)

lemma flt_Finite [simp]: "flt (Finite x) (Finite y) \<longleftrightarrow> x < y"
  by (simp add: flt_def)

lemma fle_Finite [simp]: "fle (Finite x) (Finite y) \<longleftrightarrow> x \<le> y"
  by (auto simp: fle_def feq_def)

lemma feq_Finite [simp]: "feq (Finite x) (Finite y) \<longleftrightarrow> x = y"
  by (simp add: feq_def)

lemma fle_between:
  "fle (Finite a) s \<and> fle s (Finite b) \<longleftrightarrow> (\<exists>x. s = Finite x \<and> a \<le> x \<and> x \<le> b)"
  by (cases s) (auto simp: fle_def feq_def flt_def)

lemma fdiv_100: "fdiv a (Finite 100) = Some (over_100 a)"
  by (cases a) (auto simp: fdiv_def over_100_def signed_inf_def)







text \<open>The roundings that the examples below meet, each checked against its binade.\<close>

lemma ieee_round_ex_1: "ieee_round (2 / 5) = Finite (3602879701896397 / 9007199254740992)"
  by (rule ieee_round_binade [where e = "- 2" and m = 7205759403792794, THEN trans])
     (simp_all add: round_half_even_def)

lemma ieee_round_ex_2: "ieee_round (18014398509481985 / 2251799813685248) = Finite (8)"
  by (rule ieee_round_binade [where e = 3 and m = 4503599627370496, THEN trans])
     (simp_all add: round_half_even_def)

lemma ieee_round_ex_3: "ieee_round (8) = Finite (8)"
  by (rule ieee_round_binade [where e = 3 and m = 4503599627370496, THEN trans])
     (simp_all add: round_half_even_def)

lemma ieee_round_ex_4: "ieee_round (3 / 10) = Finite (5404319552844595 / 18014398509481984)"
  by (rule ieee_round_binade [where e = "- 2" and m = 5404319552844595, THEN trans])
     (simp_all add: round_half_even_def)

lemma ieee_round_ex_5: "ieee_round (221577101666628395 / 9007199254740992) = Finite (6924284427082137 / 281474976710656)"
  by (rule ieee_round_binade [where e = 4 and m = 6924284427082137, THEN trans])
     (simp_all add: round_half_even_def)

lemma ieee_round_ex_6: "ieee_round (9176084240767385 / 281474976710656) = Finite (1147010530095923 / 35184372088832)"
  by (rule ieee_round_binade [where e = 5 and m = 4588042120383692, THEN trans])
     (simp_all add: round_half_even_def)

lemma ieee_round_ex_7: "ieee_round (156725267032493255 / 9007199254740992) = Finite (2448832297382707 / 140737488355328)"
  by (rule ieee_round_binade [where e = 4 and m = 4897664594765414, THEN trans])
     (simp_all add: round_half_even_def)

lemma ieee_round_ex_8: "ieee_round (7036874417766399 / 140737488355328) = Finite (7036874417766399 / 140737488355328)"
  by (rule ieee_round_binade [where e = 5 and m = 7036874417766399, THEN trans])
     (simp_all add: round_half_even_def)

lemma ieee_round_ex_9: "ieee_round (2448832297382707 / 140737488355328) = Finite (2448832297382707 / 140737488355328)"
  by (rule ieee_round_binade [where e = 4 and m = 4897664594765414, THEN trans])
     (simp_all add: round_half_even_def)

lemma ieee_round_ex_10: "ieee_round (11821949021847551 / 281474976710656) = Finite (42)"
  by (rule ieee_round_binade [where e = 5 and m = 5910974510923776, THEN trans])
     (simp_all add: round_half_even_def)

lemma ieee_round_ex_11: "ieee_round (50) = Finite (50)"
  by (rule ieee_round_binade [where e = 5 and m = 7036874417766400, THEN trans])
     (simp_all add: round_half_even_def)

lemma ieee_round_ex_12: "ieee_round (18014398509481985 / 562949953421312) = Finite (32)"
  by (rule ieee_round_binade [where e = 5 and m = 4503599627370496, THEN trans])
     (simp_all add: round_half_even_def)

lemma ieee_round_ex_13: "ieee_round (32) = Finite (32)"
  by (rule ieee_round_binade [where e = 5 and m = 4503599627370496, THEN trans])
     (simp_all add: round_half_even_def)

lemma ieee_round_ex_14: "ieee_round (243194379878006775 / 9007199254740992) = Finite (27)"
  by (rule ieee_round_binade [where e = 4 and m = 7599824371187712, THEN trans])
     (simp_all add: round_half_even_def)

lemma ieee_round_ex_15: "ieee_round (59) = Finite (59)"
  by (rule ieee_round_binade [where e = 5 and m = 8303511812964352, THEN trans])
     (simp_all add: round_half_even_def)

lemma ieee_round_ex_16: "ieee_round (189151184349560825 / 9007199254740992) = Finite (21)"
  by (rule ieee_round_binade [where e = 4 and m = 5910974510923776, THEN trans])
     (simp_all add: round_half_even_def)

lemma ieee_round_ex_17: "ieee_round (21) = Finite (21)"
  by (rule ieee_round_binade [where e = 4 and m = 5910974510923776, THEN trans])
     (simp_all add: round_half_even_def)

lemma ieee_round_ex_18: "ieee_round (270215977642229775 / 4503599627370496) = Finite (60)"
  by (rule ieee_round_binade [where e = 5 and m = 8444249301319680, THEN trans])
     (simp_all add: round_half_even_def)

lemma ieee_round_ex_19: "ieee_round (60) = Finite (60)"
  by (rule ieee_round_binade [where e = 5 and m = 8444249301319680, THEN trans])
     (simp_all add: round_half_even_def)

lemma ieee_round_ex_20: "ieee_round (405323966463344625 / 9007199254740992) = Finite (45)"
  by (rule ieee_round_binade [where e = 5 and m = 6333186975989760, THEN trans])
     (simp_all add: round_half_even_def)

lemma ieee_round_ex_21: "ieee_round (105) = Finite (105)"
  by (rule ieee_round_binade [where e = 6 and m = 7388718138654720, THEN trans])
     (simp_all add: round_half_even_def)

lemma ieee_round_ex_22: "ieee_round (150) = Finite (150)"
  by (rule ieee_round_binade [where e = 7 and m = 5277655813324800, THEN trans])
     (simp_all add: round_half_even_def)

lemma ieee_round_ex_23: "ieee_round (1) = Finite (1)"
  by (rule ieee_round_binade [where e = 0 and m = 4503599627370496, THEN trans])
     (simp_all add: round_half_even_def)

lemma ieee_round_ex_24: "ieee_round (80) = Finite (80)"
  by (rule ieee_round_binade [where e = 6 and m = 5629499534213120, THEN trans])
     (simp_all add: round_half_even_def)

lemma ieee_round_ex_25: "ieee_round (1 / 1000000) = Finite (4722366482869645 / 4722366482869645213696)"
  by (rule ieee_round_binade [where e = "- 20" and m = 4722366482869645, THEN trans])
     (simp_all add: round_half_even_def)

lemma ieee_round_ex_26: "ieee_round (- 100) = Finite (- 100)"
  by (rule ieee_round_binade [where e = 6 and m = "- 7036874417766400", THEN trans])
     (simp_all add: round_half_even_def)

lemma ieee_round_ex_27: "ieee_round (100) = Finite (100)"
  by (rule ieee_round_binade [where e = 6 and m = 7036874417766400, THEN trans])
     (simp_all add: round_half_even_def)

lemma ieee_round_ex_28: "ieee_round (200) = Finite (200)"
  by (rule ieee_round_binade [where e = 7 and m = 7036874417766400, THEN trans])
     (simp_all add: round_half_even_def)

lemma ieee_round_ex_29: "ieee_round (1 / 4) = Finite (1 / 4)"
  by (rule ieee_round_binade [where e = "- 2" and m = 4503599627370496, THEN trans])
     (simp_all add: round_half_even_def)

lemma ieee_round_ex_30: "ieee_round (25) = Finite (25)"
  by (rule ieee_round_binade [where e = 4 and m = 7036874417766400, THEN trans])
     (simp_all add: round_half_even_def)

lemma ieee_round_ex_31: "ieee_round (3 / 4) = Finite (3 / 4)"
  by (rule ieee_round_binade [where e = "- 1" and m = 6755399441055744, THEN trans])
     (simp_all add: round_half_even_def)

lemma ieee_round_ex_32: "ieee_round (75) = Finite (75)"
  by (rule ieee_round_binade [where e = 6 and m = 5277655813324800, THEN trans])
     (simp_all add: round_half_even_def)

lemmas example_roundings =
  ieee_round_ex_1 ieee_round_ex_2 ieee_round_ex_3 ieee_round_ex_4 ieee_round_ex_5 ieee_round_ex_6
  ieee_round_ex_7 ieee_round_ex_8 ieee_round_ex_9 ieee_round_ex_10 ieee_round_ex_11 ieee_round_ex_12
  ieee_round_ex_13 ieee_round_ex_14 ieee_round_ex_15 ieee_round_ex_16 ieee_round_ex_17 ieee_round_ex_18
  ieee_round_ex_19 ieee_round_ex_20 ieee_round_ex_21 ieee_round_ex_22 ieee_round_ex_23 ieee_round_ex_24
  ieee_round_ex_25 ieee_round_ex_26 ieee_round_ex_27 ieee_round_ex_28 ieee_round_ex_29 ieee_round_ex_30
  ieee_round_ex_31 ieee_round_ex_32







text \<open>The definitions of the built-ins for the examples, unfolded together.\<close>

lemmas sample_defs = sample_builtins_def plain_float_def plain_int_def ascii_strip_def
  ascii_lower_def ascii_space_def left_sum_def plain_parse_args_def

subsection \<open>Normalisation of the weights\<close>

lemma test_at_zero:
  "flt (ieee_round (1 / 10 ^ 6)) (fabs (fsub (Finite 0) (Finite 100)))"
  by (simp add: fsub_def fadd_def example_roundings)










text \<open>
  C4. When the values of the weight mapping sum to exactly \<open>0\<close>, the normalisation step
  raises the error about all-zero weights, after the line announcing the normalisation,
  and gives no mapping.
\<close>

theorem normalize_weights_zero_sum:
  assumes "py_sum py (map snd ws) = Finite 0"
  shows "normalize_weights py ws w =
           (Inl (ValueError ''All weights are zero; can't normalize.''),
            print_line [Str ''Weights sum to '', Num (Finite 0),
                        Str '', but must sum to 100. Normalizing proportionally.''] w)"
  using assms test_at_zero by (simp add: normalize_weights_def Let_def)

theorem normalize_weights_zero_sum_witness:
  "py_sum sample_builtins
     (map snd [(''assignment'', Finite 0), (''midterm'', Finite 0), (''final'', Finite 0)]) = Finite 0 \<and>
   fst (normalize_weights sample_builtins
          [(''assignment'', Finite 0), (''midterm'', Finite 0), (''final'', Finite 0)]
          \<lparr>stdin = [], stdout = [], files = Map.empty\<rparr>)
     = Inl (ValueError ''All weights are zero; can't normalize.'')"
proof -
  have h: "py_sum sample_builtins
     (map snd [(''assignment'', Finite 0), (''midterm'', Finite 0), (''final'', Finite 0)]) = Finite 0"
    by (simp add: sample_defs fadd_def)
  from normalize_weights_zero_sum [OF h, of "\<lparr>stdin = [], stdout = [], files = Map.empty\<rparr>"] h
  show ?thesis by simp
qed

subsection \<open>The weighted percentage\<close>



lemma weighted_loop_cong:
  "(\<And>c. c \<in> fst ` set ws \<Longrightarrow> sc1 c = sc2 c) \<Longrightarrow> weighted_loop sc1 ws t = weighted_loop sc2 ws t"
  by (induction ws arbitrary: t) (auto simp: Let_def dict_get_def)





lemma default_midterm_70:
  "calculate_weighted_percentage [''midterm'' \<mapsto> Finite 70] DEFAULT_WEIGHTS = Finite 21"
  by (simp add: DEFAULT_WEIGHTS_def calculate_weighted_percentage_def dict_get_def
      over_100_def fmul_def fadd_def example_roundings)

text \<open>
  C9. Scores for names that are not components of the weights change nothing: merging
  into the scores a mapping whose keys are none of the weights' keys leaves the weighted
  percentage as it was.
\<close>

theorem extra_scores_ignored:
  assumes "dom extra \<inter> fst ` set ws = {}"
  shows "calculate_weighted_percentage (sc ++ extra) ws = calculate_weighted_percentage sc ws"
  unfolding calculate_weighted_percentage_def
proof (rule weighted_loop_cong)
  fix c assume "c \<in> fst ` set ws"
  with assms have "c \<notin> dom extra" by blast
  then show "(sc ++ extra) c = sc c"
    by (simp add: map_add_dom_app_simps)
qed

theorem extra_scores_ignored_witness:
  "dom [''bonus'' \<mapsto> Finite 10] \<inter> fst ` set DEFAULT_WEIGHTS = {} \<and>
   calculate_weighted_percentage ([''midterm'' \<mapsto> Finite 70] ++ [''bonus'' \<mapsto> Finite 10]) DEFAULT_WEIGHTS
     = calculate_weighted_percentage [''midterm'' \<mapsto> Finite 70] DEFAULT_WEIGHTS \<and>
   calculate_weighted_percentage [''midterm'' \<mapsto> Finite 70] DEFAULT_WEIGHTS = Finite 21"
proof -
  have h: "dom [''bonus'' \<mapsto> Finite 10] \<inter> fst ` set DEFAULT_WEIGHTS = {}"
    by (simp add: DEFAULT_WEIGHTS_def)
  with default_midterm_70 extra_scores_ignored [OF h, of "[''midterm'' \<mapsto> Finite 70]"]
  show ?thesis by simp
qed

subsection \<open>The letter grade\<close>




subsection \<open>CSV mode\<close>

lemma check_fields_find:
  "check_fields required fieldnames =
     map_option (\<lambda>field. ValueError (''CSV is missing required column: '' @ field))
       (find (\<lambda>field. field \<notin> set fieldnames) required)"
  by (induction required) auto

lemma csv_loop_console:
  "stdin (csv_loop g ws w) = stdin w \<and> files (csv_loop g ws w) = files w \<and>
   (\<exists>printed. stdout (csv_loop g ws w) =
      stdout w @ printed @
        (case gen_raised g of None \<Rightarrow> [] | Some e \<Rightarrow> [Print [Str ''Error processing CSV: '', ExnStr e]]))"
proof (induction g ws w rule: csv_loop.induct)
  case (1 weights w)
  then show ?case by simp
next
  case (2 e weights w)
  then show ?case by (simp add: print_line_def)
next
  case (3 name scores g weights w)
  define ln where "ln = [Str (str_name name), Str '': '',
      Fix2 (calculate_weighted_percentage scores weights), Str ''% -> '',
      Str (percentage_to_letter (calculate_weighted_percentage scores weights))]"
  have step: "csv_loop (Yield (name, scores) g) weights w = csv_loop g weights (print_line ln w)"
    by (simp add: Let_def ln_def)
  from "3.IH" [OF refl refl] obtain printed where
    "stdin (csv_loop g weights (print_line ln w)) = stdin (print_line ln w)"
    "files (csv_loop g weights (print_line ln w)) = files (print_line ln w)"
    "stdout (csv_loop g weights (print_line ln w)) =
       stdout (print_line ln w) @ printed @
         (case gen_raised g of None \<Rightarrow> [] | Some e \<Rightarrow> [Print [Str ''Error processing CSV: '', ExnStr e]])"
    unfolding ln_def by blast
  then have "stdin (csv_loop (Yield (name, scores) g) weights w) = stdin w"
    "files (csv_loop (Yield (name, scores) g) weights w) = files w"
    "stdout (csv_loop (Yield (name, scores) g) weights w) =
       stdout w @ (Print ln # printed) @
         (case gen_raised (Yield (name, scores) g) of None \<Rightarrow> []
          | Some e \<Rightarrow> [Print [Str ''Error processing CSV: '', ExnStr e]])"
    unfolding step by (simp_all add: print_line_def)
  then show ?case by blast
qed

text \<open>
  C5. When the file has a header row and \<open>name\<close> or a component of the weights is not in
  it, the \<^verbatim>\<open>ValueError\<close> names the first missing one, in the order \<open>name\<close>, then the
  components as the weights have them, and all that CSV mode does is print that error: no
  line for any student, whatever the rows are.
\<close>

theorem missing_column_fails_fast:
  assumes "files w path = Some (fieldnames # rows)"
    and "\<not> set (''name'' # map fst weights) \<subseteq> set fieldnames"
  shows "\<exists>field. find (\<lambda>field. field \<notin> set fieldnames) (''name'' # map fst weights) = Some field \<and>
           csv_mode py path weights w =
             print_line [Str ''Error processing CSV: '',
                         ExnStr (ValueError (''CSV is missing required column: '' @ field))] w"
proof -
  have "find (\<lambda>field. field \<notin> set fieldnames) (''name'' # map fst weights) \<noteq> None"
    unfolding find_None_iff using assms(2) by blast
  then obtain field
    where field: "find (\<lambda>field. field \<notin> set fieldnames) (''name'' # map fst weights) = Some field"
    by blast
  then have "parse_csv py path (map fst weights) w =
               Raise (ValueError (''CSV is missing required column: '' @ field))"
    using assms(1) by (simp add: parse_csv_def check_fields_find)
  with field show ?thesis
    by (simp add: csv_mode_def)
qed

theorem missing_column_fails_fast_witness:
  "stdout (csv_mode sample_builtins ''grades.csv'' DEFAULT_WEIGHTS
     \<lparr>stdin = [], stdout = [],
      files = [''grades.csv'' \<mapsto> [[''name'', ''assignment'', ''final''], [''Alice'', ''80'', ''90'']]]\<rparr>)
   = [Print [Str ''Error processing CSV: '',
             ExnStr (ValueError ''CSV is missing required column: midterm'')]]"
  using missing_column_fails_fast [of
      "\<lparr>stdin = [], stdout = [],
        files = [''grades.csv'' \<mapsto> [[''name'', ''assignment'', ''final''], [''Alice'', ''80'', ''90'']]]\<rparr>"
      "''grades.csv''" "[''name'', ''assignment'', ''final'']" "[[''Alice'', ''80'', ''90'']]"
      DEFAULT_WEIGHTS sample_builtins]
  by (simp add: DEFAULT_WEIGHTS_def print_line_def)

subsection \<open>Interactive mode\<close>

lemma input_line_Nil:
  "stdin w = [] \<Longrightarrow> input_line p w = (Inl EOFError, w\<lparr>stdout := stdout w @ [Prompt p]\<rparr>)"
  by (simp add: input_line_def)

lemma input_line_Cons:
  "stdin w = l # ls \<Longrightarrow> input_line p w = (Inr l, w\<lparr>stdin := ls, stdout := stdout w @ [Prompt p]\<rparr>)"
  by (simp add: input_line_def)

lemma input_line_raises: "input_line p w = (Inl e, w') \<Longrightarrow> e = EOFError"
  by (auto simp: input_line_def Let_def split: list.splits)

lemma score_loop_eof:
  "stdin w = [] \<Longrightarrow>
   score_loop py c w =
     (Inl EOFError, w\<lparr>stdout := stdout w @ [Prompt [Str ''  '', Str c, Str '' score (0-100): '']]\<rparr>)"
  by (subst score_loop.simps) (simp add: input_line_Nil)

lemma score_loop_reject:
  assumes "stdin w = l # ls"
    and "\<forall>v. py_float py (py_strip py l) = Some v \<longrightarrow> \<not> (fle (Finite 0) v \<and> fle v (Finite 100))"
  shows "score_loop py c w =
     score_loop py c
       (w\<lparr>stdin := ls,
          stdout := stdout w @ [Prompt [Str ''  '', Str c, Str '' score (0-100): ''],
                                Print [Str ''  Enter a number between 0 and 100.'']]\<rparr>)"
  using assms
  by (subst score_loop.simps)
     (auto simp: input_line_Cons print_line_def Let_def split: option.splits)

lemma score_loop_accept:
  assumes "stdin w = l # ls" and "py_float py (py_strip py l) = Some v"
    and "fle (Finite 0) v" and "fle v (Finite 100)"
  shows "score_loop py c w =
     (Inr v, w\<lparr>stdin := ls, stdout := stdout w @ [Prompt [Str ''  '', Str c, Str '' score (0-100): '']]\<rparr>)"
  using assms
  by (subst score_loop.simps) (simp add: input_line_Cons Let_def)

lemma score_loop_result:
  "score_loop py c w = (r, w') \<Longrightarrow> (case r of Inl e \<Rightarrow> e = EOFError | Inr v \<Rightarrow> fle (Finite 0) v \<and> fle v (Finite 100))"
proof (induction ls \<equiv> "stdin w" arbitrary: w)
  case Nil
  then show ?case
    by (auto simp: score_loop_eof [OF Nil(1) [symmetric]])
next
  case (Cons l ls)
  note w = Cons.hyps(2) [symmetric]
  show ?case
  proof (cases "\<exists>v. py_float py (py_strip py l) = Some v \<and> fle (Finite 0) v \<and> fle v (Finite 100)")
    case True
    then obtain v where v: "py_float py (py_strip py l) = Some v" "fle (Finite 0) v" "fle v (Finite 100)"
      by blast
    from score_loop_accept [OF w v, of c] Cons.prems v(2,3) show ?thesis
      by auto
  next
    case False
    then have rej: "\<forall>v. py_float py (py_strip py l) = Some v \<longrightarrow> \<not> (fle (Finite 0) v \<and> fle v (Finite 100))"
      by blast
    show ?thesis
      by (rule Cons.hyps(1) [OF _ Cons.prems [unfolded score_loop_reject [OF w rej]]]) simp
  qed
qed

lemma scores_loop_result:
  "scores_loop py comps sc w = (r, w') \<Longrightarrow>
   (case r of
      Inl e \<Rightarrow> e = EOFError
    | Inr sc' \<Rightarrow> (\<forall>c\<in>set comps. \<exists>s. sc' c = Some s \<and> fle (Finite 0) s \<and> fle s (Finite 100)) \<and>
                 (\<forall>c. c \<notin> set comps \<longrightarrow> sc' c = sc c))"
proof (induction comps arbitrary: sc w)
  case Nil
  then show ?case by auto
next
  case (Cons c cs)
  obtain r1 w1 where s1: "score_loop py c w = (r1, w1)"
    by (cases "score_loop py c w")
  show ?case
  proof (cases r1)
    case (Inl e)
    with Cons.prems s1 score_loop_result [OF s1] show ?thesis by auto
  next
    case (Inr v)
    with score_loop_result [OF s1] have v: "fle (Finite 0) v" "fle v (Finite 100)" by simp_all
    from Cons.prems s1 Inr have rest: "scores_loop py cs (sc(c \<mapsto> v)) w1 = (r, w')" by simp
    show ?thesis
    proof (cases r)
      case (Inl e)
      with Cons.IH [OF rest] show ?thesis by simp
    next
      case (Inr sc')
      with Cons.IH [OF rest]
      have a: "\<forall>c\<in>set cs. \<exists>s. sc' c = Some s \<and> fle (Finite 0) s \<and> fle s (Finite 100)"
        and b: "\<forall>d. d \<notin> set cs \<longrightarrow> sc' d = (sc(c \<mapsto> v)) d"
        by simp_all
      have "\<exists>s. sc' c = Some s \<and> fle (Finite 0) s \<and> fle s (Finite 100)"
        using a b v by (cases "c \<in> set cs") auto
      with a b Inr show ?thesis by auto
    qed
  qed
qed

lemma enter_student_raises: "enter_student py ws name w = (Inl e, w') \<Longrightarrow> e = EOFError"
  using scores_loop_result [of py "map fst ws" Map.empty w]
  by (auto simp: enter_student_def Let_def split: prod.splits sum.splits)

lemma indefinite_loop_raises: "indefinite_loop py ws w = (Inl e, w') \<Longrightarrow> e = EOFError"
proof (induction py ws w rule: indefinite_loop.induct)
  case (1 py ws w)
  from "1.prems" show ?case
    by (subst (asm) indefinite_loop.simps)
       (auto simp: Let_def split: prod.splits sum.splits if_splits
             dest: input_line_raises enter_student_raises intro: "1.IH")
qed

lemma count_loop_raises: "count_loop py ws i k w = (Inl e, w') \<Longrightarrow> e = EOFError"
  by (induction k arbitrary: i w)
     (auto split: prod.splits sum.splits dest: input_line_raises enter_student_raises)

lemma interactive_mode_raises: "interactive_mode py ws w = (Inl e, w') \<Longrightarrow> e = EOFError"
  by (auto simp: interactive_mode_def Let_def split: prod.splits sum.splits if_splits option.splits
           dest: input_line_raises indefinite_loop_raises count_loop_raises)

lemma row_scores_accepts:
  "\<forall>c\<in>set comps. \<exists>s x. row c = Some (Some s) \<and> py_float py s = Some x \<Longrightarrow>
   \<exists>sc'. row_scores py row comps sc = Inr sc' \<and>
         (\<forall>c\<in>set comps. \<exists>s. row c = Some (Some s) \<and> sc' c = py_float py s) \<and>
         (\<forall>c. c \<notin> set comps \<longrightarrow> sc' c = sc c)"
proof (induction comps arbitrary: sc)
  case Nil
  then show ?case by simp
next
  case (Cons c cs)
  from Cons.prems obtain s x where c: "row c = Some (Some s)" "py_float py s = Some x"
    by auto
  from Cons.prems have "\<forall>c\<in>set cs. \<exists>s x. row c = Some (Some s) \<and> py_float py s = Some x"
    by simp
  from Cons.IH [OF this, of "sc(c \<mapsto> x)"] obtain sc' where
    r: "row_scores py row cs (sc(c \<mapsto> x)) = Inr sc'"
    and a: "\<forall>c\<in>set cs. \<exists>s. row c = Some (Some s) \<and> sc' c = py_float py s"
    and b: "\<forall>d. d \<notin> set cs \<longrightarrow> sc' d = (sc(c \<mapsto> x)) d"
    by blast
  have "\<exists>s. row c = Some (Some s) \<and> sc' c = py_float py s"
    using a b c by (cases "c \<in> set cs") auto
  with a b c r show ?case by auto
qed

lemma default_all_150:
  "calculate_weighted_percentage
     [''assignment'' \<mapsto> Finite 150, ''midterm'' \<mapsto> Finite 150, ''final'' \<mapsto> Finite 150]
     DEFAULT_WEIGHTS = Finite 150"
  by (simp add: DEFAULT_WEIGHTS_def calculate_weighted_percentage_def dict_get_def
      over_100_def fmul_def fadd_def example_roundings)

text \<open>
  C6. A line that is not a number between \<open>0\<close> and \<open>100\<close> gets the message and a new
  prompt; the first line that is one ends the loop with that score. So the scores a
  student's entry collects, one for every component, all lie between \<open>0\<close> and \<open>100\<close>.
  A CSV row is taken as it is: whenever every component's cell is a number, whatever its
  value, the scores are those numbers. The row \<open>Bob,150,150,150\<close> under the default
  weights gives \<open>150\<close> percent and the letter \<open>A\<close>.
\<close>

theorem score_range_interactive_not_csv:
  "(stdin w = l # ls \<longrightarrow>
      (\<forall>x. py_float py (py_strip py l) = Some (Finite x) \<longrightarrow> \<not> (0 \<le> x \<and> x \<le> 100)) \<longrightarrow>
      score_loop py c w =
        score_loop py c
          (w\<lparr>stdin := ls,
             stdout := stdout w @ [Prompt [Str ''  '', Str c, Str '' score (0-100): ''],
                                   Print [Str ''  Enter a number between 0 and 100.'']]\<rparr>)) \<and>
   (stdin w = l # ls \<longrightarrow> py_float py (py_strip py l) = Some (Finite x) \<longrightarrow> 0 \<le> x \<longrightarrow> x \<le> 100 \<longrightarrow>
      score_loop py c w =
        (Inr (Finite x),
         w\<lparr>stdin := ls,
           stdout := stdout w @ [Prompt [Str ''  '', Str c, Str '' score (0-100): '']]\<rparr>)) \<and>
   (\<forall>sc w'. scores_loop py comps Map.empty w = (Inr sc, w') \<longrightarrow>
      dom sc = set comps \<and> (\<forall>c s. sc c = Some s \<longrightarrow> (\<exists>x. s = Finite x \<and> 0 \<le> x \<and> x \<le> 100))) \<and>
   ((\<forall>c\<in>set comps. \<exists>s x. row c = Some (Some s) \<and> py_float py s = Some x) \<longrightarrow>
      (\<exists>sc. row_scores py row comps Map.empty = Inr sc \<and>
            (\<forall>c\<in>set comps. \<exists>s. row c = Some (Some s) \<and> sc c = py_float py s))) \<and>
   stdout (csv_mode sample_builtins ''grades.csv'' DEFAULT_WEIGHTS
      \<lparr>stdin = [], stdout = [],
       files = [''grades.csv'' \<mapsto> [[''name'', ''assignment'', ''midterm'', ''final''],
                                   [''Bob'', ''150'', ''150'', ''150'']]]\<rparr>)
     = [Print [Str ''Bob'', Str '': '', Fix2 (Finite 150), Str ''% -> '', Str ''A'']]"
proof (intro conjI impI allI)
  assume "stdin w = l # ls"
    and "\<forall>x. py_float py (py_strip py l) = Some (Finite x) \<longrightarrow> \<not> (0 \<le> x \<and> x \<le> 100)"
  then show "score_loop py c w =
        score_loop py c
          (w\<lparr>stdin := ls,
             stdout := stdout w @ [Prompt [Str ''  '', Str c, Str '' score (0-100): ''],
                                   Print [Str ''  Enter a number between 0 and 100.'']]\<rparr>)"
    by (intro score_loop_reject) (auto simp: fle_between)
next
  assume "stdin w = l # ls" "py_float py (py_strip py l) = Some (Finite x)" "0 \<le> x" "x \<le> 100"
  then show "score_loop py c w =
        (Inr (Finite x),
         w\<lparr>stdin := ls,
           stdout := stdout w @ [Prompt [Str ''  '', Str c, Str '' score (0-100): '']]\<rparr>)"
    by (intro score_loop_accept) simp_all
next
  fix sc w' assume run: "scores_loop py comps Map.empty w = (Inr sc, w')"
  from scores_loop_result [OF run]
  have a: "\<forall>c\<in>set comps. \<exists>s. sc c = Some s \<and> fle (Finite 0) s \<and> fle s (Finite 100)"
    and b: "\<forall>c. c \<notin> set comps \<longrightarrow> sc c = None"
    by simp_all
  show "dom sc = set comps"
    using a b by (auto simp: dom_def)
  fix c s assume "sc c = Some s"
  with a b have "fle (Finite 0) s \<and> fle s (Finite 100)"
    by (cases "c \<in> set comps") fastforce+
  then show "\<exists>x. s = Finite x \<and> 0 \<le> x \<and> x \<le> 100"
    by (simp only: fle_between)
next
  assume "\<forall>c\<in>set comps. \<exists>s x. row c = Some (Some s) \<and> py_float py s = Some x"
  from row_scores_accepts [OF this, of Map.empty]
  show "\<exists>sc. row_scores py row comps Map.empty = Inr sc \<and>
            (\<forall>c\<in>set comps. \<exists>s. row c = Some (Some s) \<and> sc c = py_float py s)"
    by blast
next
  have "percentage_to_letter (Finite 150) = ''A''"
    by (simp add: percentage_to_letter_def GRADE_SCALE_def)
  then show "stdout (csv_mode sample_builtins ''grades.csv'' DEFAULT_WEIGHTS
      \<lparr>stdin = [], stdout = [],
       files = [''grades.csv'' \<mapsto> [[''name'', ''assignment'', ''midterm'', ''final''],
                                   [''Bob'', ''150'', ''150'', ''150'']]]\<rparr>)
     = [Print [Str ''Bob'', Str '': '', Fix2 (Finite 150), Str ''% -> '', Str ''A'']]"
    using default_all_150
    by (simp add: csv_mode_def parse_csv_def row_dict_def sample_defs str_name_def print_line_def
        DEFAULT_WEIGHTS_def [THEN arg_cong [where f = "map fst"]])
qed

theorem score_range_interactive_not_csv_witness:
  "fst (score_loop sample_builtins ''midterm''
          \<lparr>stdin = [''abc'', ''150'', ''80''], stdout = [], files = Map.empty\<rparr>) = Inr (Finite 80)"
proof -
  have f: "py_float sample_builtins (py_strip sample_builtins ''abc'') = None"
    "py_float sample_builtins (py_strip sample_builtins ''150'') = Some (Finite 150)"
    "py_float sample_builtins (py_strip sample_builtins ''80'') = Some (Finite 80)"
    by (simp_all add: sample_defs)
  note reject = score_range_interactive_not_csv [THEN conjunct1, rule_format,
      where py = sample_builtins and c = "''midterm''"]
  note accept = score_range_interactive_not_csv [THEN conjunct2, THEN conjunct1, rule_format,
      where py = sample_builtins and c = "''midterm''"]
  have "score_loop sample_builtins ''midterm''
          \<lparr>stdin = [''abc'', ''150'', ''80''], stdout = [], files = Map.empty\<rparr>
        = score_loop sample_builtins ''midterm''
          \<lparr>stdin = [''150'', ''80''],
           stdout = [Prompt [Str ''  '', Str ''midterm'', Str '' score (0-100): ''],
                     Print [Str ''  Enter a number between 0 and 100.'']],
           files = Map.empty\<rparr>"
    using reject [of "\<lparr>stdin = [''abc'', ''150'', ''80''], stdout = [], files = Map.empty\<rparr>"
        "''abc''" "[''150'', ''80'']"] f(1)
    by simp
  also have "\<dots> = score_loop sample_builtins ''midterm''
          \<lparr>stdin = [''80''],
           stdout = [Prompt [Str ''  '', Str ''midterm'', Str '' score (0-100): ''],
                     Print [Str ''  Enter a number between 0 and 100.''],
                     Prompt [Str ''  '', Str ''midterm'', Str '' score (0-100): ''],
                     Print [Str ''  Enter a number between 0 and 100.'']],
           files = Map.empty\<rparr>"
    using reject [of "\<lparr>stdin = [''150'', ''80''],
           stdout = [Prompt [Str ''  '', Str ''midterm'', Str '' score (0-100): ''],
                     Print [Str ''  Enter a number between 0 and 100.'']],
           files = Map.empty\<rparr>" "''150''" "[''80'']"] f(2)
    by simp
  also have "fst \<dots> = Inr (Finite 80)"
    using accept [of "\<lparr>stdin = [''80''],
           stdout = [Prompt [Str ''  '', Str ''midterm'', Str '' score (0-100): ''],
                     Print [Str ''  Enter a number between 0 and 100.''],
                     Prompt [Str ''  '', Str ''midterm'', Str '' score (0-100): ''],
                     Print [Str ''  Enter a number between 0 and 100.'']],
           files = Map.empty\<rparr>" "''80''" "[]" 80] f(3)
    by simp
  finally show ?thesis .
qed

subsection \<open>The exit status\<close>

text \<open>
  C7, as the specification has it, fails in interactive mode: with the empty command line
  and the single input line \<open>n\<close> the weights are the defaults, nothing is wrong with
  them, and the process still ends with status \<open>1\<close>, since the input is over when the
  number of students is asked for and nothing catches the \<^verbatim>\<open>EOFError\<close>.
\<close>

theorem eof_exit_counterexample:
  "py_parse_args sample_builtins [] = Namespace None \<and>
   fst (prompt_weights sample_builtins DEFAULT_WEIGHTS
          \<lparr>stdin = [''n''], stdout = [], files = Map.empty\<rparr>) = Inr DEFAULT_WEIGHTS \<and>
   fst (main sample_builtins [] \<lparr>stdin = [''n''], stdout = [], files = Map.empty\<rparr>) = 1"
  by (simp add: main_def prompt_weights_def DEFAULT_WEIGHTS_def print_line_def input_line_def
      sample_defs interactive_mode_def given_path_def)

text \<open>
  C7, amended. The exit status is not zero exactly when the parser of the command line
  ended the process with such a status, when the weight configuration raised, or when,
  in interactive mode, the input ended at a prompt. With a CSV path the status is zero
  once the weights are there, and whatever exception ends the reading of the file
  (a missing column, a field that is not a number, a file that cannot be opened) is
  caught: its message is the last line printed.
\<close>

theorem main_exit_status:
  "(fst (main py argv w) \<noteq> 0 \<longleftrightarrow>
      (\<exists>status printed. py_parse_args py argv = SystemExit status printed \<and> status \<noteq> 0) \<or>
      (\<exists>csv. py_parse_args py argv = Namespace csv \<and>
         ((\<exists>e. fst (prompt_weights py DEFAULT_WEIGHTS w) = Inl e) \<or>
          (given_path csv = None \<and>
           (\<exists>ws w1. prompt_weights py DEFAULT_WEIGHTS w = (Inr ws, w1) \<and>
                    fst (interactive_mode py ws w1) = Inl EOFError))))) \<and>
   (\<forall>csv ws w1 path.
      py_parse_args py argv = Namespace csv \<longrightarrow>
      prompt_weights py DEFAULT_WEIGHTS w = (Inr ws, w1) \<longrightarrow> given_path csv = Some path \<longrightarrow>
      fst (main py argv w) = 0 \<and>
      (\<forall>e. gen_raised (parse_csv py path (map fst ws) w1) = Some e \<longrightarrow>
         (\<exists>printed. stdout (snd (main py argv w)) =
            stdout w1 @ printed @ [Print [Str ''Error processing CSV: '', ExnStr e]])))"
proof -
  obtain r w1 where pw: "prompt_weights py DEFAULT_WEIGHTS w = (r, w1)"
    by (cases "prompt_weights py DEFAULT_WEIGHTS w")
  have status: "fst (main py argv w) \<noteq> 0 \<longleftrightarrow>
      (\<exists>status printed. py_parse_args py argv = SystemExit status printed \<and> status \<noteq> 0) \<or>
      (\<exists>csv. py_parse_args py argv = Namespace csv \<and>
         ((\<exists>e. fst (prompt_weights py DEFAULT_WEIGHTS w) = Inl e) \<or>
          (given_path csv = None \<and>
           (\<exists>ws w1. prompt_weights py DEFAULT_WEIGHTS w = (Inr ws, w1) \<and>
                    fst (interactive_mode py ws w1) = Inl EOFError))))"
  proof (cases "py_parse_args py argv")
    case (SystemExit status printed)
    then show ?thesis by (simp add: main_def)
  next
    case (Namespace csv)
    show ?thesis
    proof (cases r)
      case (Inl e)
      with pw Namespace show ?thesis by (simp add: main_def)
    next
      case (Inr ws)
      show ?thesis
      proof (cases "given_path csv")
        case (Some path)
        with pw Inr Namespace show ?thesis by (simp add: main_def)
      next
        case None
        obtain r2 w2 where im: "interactive_mode py ws w1 = (r2, w2)"
          by (cases "interactive_mode py ws w1")
        show ?thesis
        proof (cases r2)
          case (Inl e)
          with interactive_mode_raises im have "e = EOFError" by blast
          with pw Inr None im Inl Namespace show ?thesis by (simp add: main_def)
        next
          case r2: (Inr u)
          with pw Inr None im Namespace show ?thesis by (simp add: main_def)
        qed
      qed
    qed
  qed
  have csv: "fst (main py argv w) = 0 \<and>
      (\<forall>e. gen_raised (parse_csv py path (map fst ws) w1') = Some e \<longrightarrow>
         (\<exists>printed. stdout (snd (main py argv w)) =
            stdout w1' @ printed @ [Print [Str ''Error processing CSV: '', ExnStr e]]))"
    if "py_parse_args py argv = Namespace csv"
      "prompt_weights py DEFAULT_WEIGHTS w = (Inr ws, w1')" "given_path csv = Some path"
    for csv ws w1' path
  proof -
    from that have m: "main py argv w = (0, csv_loop (parse_csv py path (map fst ws) w1') ws w1')"
      by (simp add: main_def csv_mode_def)
    from csv_loop_console [of "parse_csv py path (map fst ws) w1'" ws w1']
    obtain printed where "stdout (csv_loop (parse_csv py path (map fst ws) w1') ws w1') =
      stdout w1' @ printed @
        (case gen_raised (parse_csv py path (map fst ws) w1') of None \<Rightarrow> []
         | Some e \<Rightarrow> [Print [Str ''Error processing CSV: '', ExnStr e]])"
      by blast
    then show ?thesis
      unfolding m by auto
  qed
  from status csv show ?thesis by blast
qed

theorem main_exit_status_witness:
  "fst (main sample_builtins [''--bogus'']
          \<lparr>stdin = [], stdout = [], files = Map.empty\<rparr>) \<noteq> 0 \<and>
   fst (main sample_builtins [''--csv'', ''grades.csv'']
          \<lparr>stdin = [''y'', ''0'', ''0'', ''0''], stdout = [], files = Map.empty\<rparr>) \<noteq> 0 \<and>
   fst (main sample_builtins [''--csv'', ''grades.csv'']
          \<lparr>stdin = [''n''], stdout = [],
           files = [''grades.csv'' \<mapsto> [[''name'', ''assignment'', ''midterm'', ''final''],
                                       [''Bob'', ''abc'', ''70'', ''90'']]]\<rparr>) = 0 \<and>
   last (stdout (snd (main sample_builtins [''--csv'', ''grades.csv'']
          \<lparr>stdin = [''n''], stdout = [],
           files = [''grades.csv'' \<mapsto> [[''name'', ''assignment'', ''midterm'', ''final''],
                                       [''Bob'', ''abc'', ''70'', ''90'']]]\<rparr>)))
     = Print [Str ''Error processing CSV: '', ExnStr (FloatValueError ''abc'')]"
proof -
  let ?argv = "[''--csv'', ''grades.csv'']"
  let ?w0 = "\<lparr>stdin = [], stdout = [], files = Map.empty\<rparr>"
  let ?wy = "\<lparr>stdin = [''y'', ''0'', ''0'', ''0''], stdout = [], files = Map.empty\<rparr>"
  let ?fs = "[''grades.csv'' \<mapsto> [[''name'', ''assignment'', ''midterm'', ''final''],
                                  [''Bob'', ''abc'', ''70'', ''90'']]]"
  let ?wn = "\<lparr>stdin = [''n''], stdout = [], files = ?fs\<rparr>"
  let ?w1 = "\<lparr>stdin = [],
      stdout = [Print [Str ''Current/default weights (percent):''],
                Print [Str ''  '', Str ''assignment'', Str '': '', Num (Finite 40), Str ''%''],
                Print [Str ''  '', Str ''midterm'', Str '': '', Num (Finite 30), Str ''%''],
                Print [Str ''  '', Str ''final'', Str '': '', Num (Finite 30), Str ''%''],
                Prompt [Str ''Would you like to change weights? (y/N): '']],
      files = ?fs\<rparr>"
  have args: "py_parse_args sample_builtins ?argv = Namespace (Some ''grades.csv'')"
    "py_parse_args sample_builtins [''--bogus''] = SystemExit 2 []"
    by (simp_all add: sample_defs)
  from main_exit_status [of sample_builtins "[''--bogus'']" ?w0] args(2)
  have z: "fst (main sample_builtins [''--bogus''] ?w0) \<noteq> 0"
    by simp
  have "fst (prompt_weights sample_builtins DEFAULT_WEIGHTS ?wy)
          = Inl (ValueError ''All weights are zero; can't normalize.'')"
    using test_at_zero
    by (simp add: prompt_weights_def DEFAULT_WEIGHTS_def print_line_def input_line_def
        sample_defs weight_loop.simps normalize_weights_def fadd_def)
  with main_exit_status [of sample_builtins ?argv ?wy] args(1)
  have a: "fst (main sample_builtins ?argv ?wy) \<noteq> 0"
    by simp
  have pw: "prompt_weights sample_builtins DEFAULT_WEIGHTS ?wn = (Inr DEFAULT_WEIGHTS, ?w1)"
    by (simp add: prompt_weights_def DEFAULT_WEIGHTS_def print_line_def input_line_def sample_defs)
  have gp: "given_path (Some ''grades.csv'') = Some ''grades.csv''"
    by (simp add: given_path_def)
  have raised: "gen_raised (parse_csv sample_builtins ''grades.csv'' (map fst DEFAULT_WEIGHTS) ?w1)
                  = Some (FloatValueError ''abc'')"
    by (simp add: parse_csv_def DEFAULT_WEIGHTS_def row_dict_def sample_defs)
  from main_exit_status [of sample_builtins ?argv ?wn, THEN conjunct2,
      rule_format, OF args(1) pw gp]
  have b: "fst (main sample_builtins ?argv ?wn) = 0"
    and "\<forall>e. gen_raised (parse_csv sample_builtins ''grades.csv'' (map fst DEFAULT_WEIGHTS) ?w1) = Some e \<longrightarrow>
         (\<exists>printed. stdout (snd (main sample_builtins ?argv ?wn)) =
            stdout ?w1 @ printed @ [Print [Str ''Error processing CSV: '', ExnStr e]])"
    by blast+
  with raised obtain printed where
    "stdout (snd (main sample_builtins ?argv ?wn)) =
       stdout ?w1 @ printed @ [Print [Str ''Error processing CSV: '', ExnStr (FloatValueError ''abc'')]]"
    by blast
  then have c: "last (stdout (snd (main sample_builtins ?argv ?wn)))
     = Print [Str ''Error processing CSV: '', ExnStr (FloatValueError ''abc'')]"
    by simp
  from z a b c show ?thesis by blast
qed

subsection \<open>The count of students\<close>

text \<open>
  C8. In the fixed-count branch (the answer is not blank) an answer that \<^verbatim>\<open>int\<close> rejects
  ends interactive mode at once and normally: after the prompt the message is printed,
  no further line is read and nothing else is written. The process, which the parser of
  the command line has let through, then exits with status zero.
\<close>

theorem invalid_count_aborts:
  assumes "stdin w = l # rest" and "py_strip py l \<noteq> ''''" and "py_int py (py_strip py l) = None"
  shows "interactive_mode py weights w =
           (Inr (), w\<lparr>stdin := rest,
                      stdout := stdout w @
                        [Prompt [Str ''How many students to enter? (leave blank to enter until 'q'): ''],
                         Print [Str ''Invalid number, aborting.'']]\<rparr>) \<and>
         (\<forall>w0 argv csv. py_parse_args py argv = Namespace csv \<longrightarrow>
            prompt_weights py DEFAULT_WEIGHTS w0 = (Inr weights, w) \<longrightarrow> given_path csv = None \<longrightarrow>
            fst (main py argv w0) = 0)"
proof -
  have im: "interactive_mode py weights w =
           (Inr (), w\<lparr>stdin := rest,
                      stdout := stdout w @
                        [Prompt [Str ''How many students to enter? (leave blank to enter until 'q'): ''],
                         Print [Str ''Invalid number, aborting.'']]\<rparr>)"
    using assms by (simp add: interactive_mode_def input_line_Cons Let_def print_line_def)
  then show ?thesis
    by (simp add: main_def)
qed

theorem invalid_count_aborts_witness:
  "interactive_mode sample_builtins DEFAULT_WEIGHTS
     \<lparr>stdin = [''three'', ''Alice'', ''80''], stdout = [], files = Map.empty\<rparr> =
     (Inr (), \<lparr>stdin = [''Alice'', ''80''],
               stdout = [Prompt [Str ''How many students to enter? (leave blank to enter until 'q'): ''],
                         Print [Str ''Invalid number, aborting.'']],
               files = Map.empty\<rparr>)"
  using invalid_count_aborts [of "\<lparr>stdin = [''three'', ''Alice'', ''80''], stdout = [], files = Map.empty\<rparr>"
      "''three''" "[''Alice'', ''80'']" sample_builtins DEFAULT_WEIGHTS]
  by (simp add: sample_defs)

text \<open>
  C10. In the fixed-count branch a count that is zero or negative is accepted: interactive
  mode returns normally after the prompt for the count, having read no further line and
  written nothing else, and the process, which the parser of the command line has let
  through, exits with status zero.
\<close>

theorem nonpositive_count_collects_nothing:
  assumes "stdin w = l # rest" and "py_strip py l \<noteq> ''''"
    and "py_int py (py_strip py l) = Some count" and "count \<le> 0"
  shows "interactive_mode py weights w =
           (Inr (), w\<lparr>stdin := rest,
                      stdout := stdout w @
                        [Prompt [Str ''How many students to enter? (leave blank to enter until 'q'): '']]\<rparr>) \<and>
         (\<forall>w0 argv csv. py_parse_args py argv = Namespace csv \<longrightarrow>
            prompt_weights py DEFAULT_WEIGHTS w0 = (Inr weights, w) \<longrightarrow> given_path csv = None \<longrightarrow>
            fst (main py argv w0) = 0)"
proof -
  have im: "interactive_mode py weights w =
           (Inr (), w\<lparr>stdin := rest,
                      stdout := stdout w @
                        [Prompt [Str ''How many students to enter? (leave blank to enter until 'q'): '']]\<rparr>)"
    using assms by (simp add: interactive_mode_def input_line_Cons Let_def)
  then show ?thesis
    by (simp add: main_def)
qed

theorem nonpositive_count_collects_nothing_witness:
  "interactive_mode sample_builtins DEFAULT_WEIGHTS
     \<lparr>stdin = [''-3'', ''Alice'', ''80''], stdout = [], files = Map.empty\<rparr> =
     (Inr (), \<lparr>stdin = [''Alice'', ''80''],
               stdout = [Prompt [Str ''How many students to enter? (leave blank to enter until 'q'): '']],
               files = Map.empty\<rparr>)"
  using nonpositive_count_collects_nothing [of
      "\<lparr>stdin = [''-3'', ''Alice'', ''80''], stdout = [], files = Map.empty\<rparr>"
      "''-3''" "[''Alice'', ''80'']" sample_builtins "- 3" DEFAULT_WEIGHTS]
  by (simp add: sample_defs)

end
